theory Spec2Isabelle
  imports Main
begin

section \<open>Values and errors of the embedded TypeScript\<close>

text \<open>
  The repository is a set of TypeScript exercises. At run time a role and an action are
  strings (the types \<open>Role\<close> and \<open>Action\<close> are unions of string literals read off the
  permission table), the permission table is an object whose properties are arrays of
  strings, and an exception is a value that unwinds the call. The embedding keeps the
  strings, writes the object literal as the list of its properties in source order, and
  returns an exception as the left summand of the result.
\<close>

datatype error =
    TypeError
  | Error string

type_synonym access_model = "(string \<times> string list) list"

text \<open>\<open>Array.prototype.includes\<close> on an array of strings: a left-to-right scan.\<close>

fun Array_includes :: "'a list \<Rightarrow> 'a \<Rightarrow> bool" where
  "Array_includes [] searchElement = False"
| "Array_includes (x # xs) searchElement = (x = searchElement \<or> Array_includes xs searchElement)"

section \<open>Role based access (the unnamed source file with the permission table)\<close>

definition userAccessModel :: access_model where
  "userAccessModel =
     [(''user'', [''update-self'', ''view'']),
      (''admin'', [''create'', ''update-self'', ''update-any'', ''delete'', ''view'']),
      (''anonymous'', [''view''])]"

text \<open>\<open>type Role = keyof typeof userAccessModel\<close>: the property names of the table.\<close>

definition Role :: "string set" where
  "Role = set (map fst userAccessModel)"

text \<open>\<open>type Action = typeof userAccessModel[Role][number]\<close>: the members of all the arrays.\<close>

definition Action :: "string set" where
  "Action = (\<Union>entry \<in> set userAccessModel. set (snd entry))"

text \<open>
  \<open>canUserAccess\<close> reads the property \<open>role\<close> of the table and calls \<open>includes\<close> on it.
  Reading a property the object does not have gives \<open>undefined\<close>, and the method call on it
  raises a \<open>TypeError\<close>; the cast to \<open>ReadonlyArray<Action>\<close> is erased at run time.
  \<open>canUserAccess_in\<close> is the function body over the table the module variable holds when
  the call is made; it returns the table the call leaves behind next to the result.
\<close>

definition canUserAccess_in :: "access_model \<Rightarrow> string \<Rightarrow> string \<Rightarrow> (error + bool) \<times> access_model" where
  "canUserAccess_in model role action =
     (case map_of model role of
        None \<Rightarrow> (Inl TypeError, model)
      | Some actions \<Rightarrow> (Inr (Array_includes actions action), model))"

text \<open>The module binds \<open>userAccessModel\<close> once, as a \<open>const\<close>; a call sees that table.\<close>

definition canUserAccess :: "string \<Rightarrow> string \<Rightarrow> error + bool" where
  "canUserAccess role action = fst (canUserAccess_in userAccessModel role action)"

text \<open>
  The tables the module variable can hold over a run of the program: the one it is
  initialised with, and whatever a call of the only operation leaves behind.
\<close>

inductive reachable :: "access_model \<Rightarrow> bool" where
  initial: "reachable userAccessModel"
| call: "reachable model \<Longrightarrow> reachable (snd (canUserAccess_in model role action))"

section \<open>Role based access (the exercise file)\<close>

definition userAccessModel_exercise :: access_model where
  "userAccessModel_exercise =
     [(''user'', [''update-self'', ''view'']),
      (''admin'', [''create'', ''update-self'', ''update-any'', ''delete'', ''view'']),
      (''anonymous'', [''view''])]"

definition canUserAccess_exercise :: "string \<Rightarrow> string \<Rightarrow> error + bool" where
  "canUserAccess_exercise role action =
     (case map_of userAccessModel_exercise role of
        None \<Rightarrow> Inl TypeError
      | Some actions \<Rightarrow> Inr (Array_includes actions action))"

section \<open>Checking an email before creating a user\<close>

text \<open>
  \<open>String.prototype.includes\<close>: does the search string occur in the string, at any
  position. \<open>String_startsWith\<close> compares the search string with the characters at the
  front; \<open>String_includes\<close> tries every position from the left. A \<open>string\<close> here is
  a list of bytes where the source has UTF-16 code units; the search for \<open>@\<close> is the same
  on both, since no encoding of another character contains the code of \<open>@\<close>.
\<close>

fun String_startsWith :: "string \<Rightarrow> string \<Rightarrow> bool" where
  "String_startsWith s [] = True"
| "String_startsWith [] (p # ps) = False"
| "String_startsWith (c # cs) (p # ps) = (c = p \<and> String_startsWith cs ps)"

fun String_includes :: "string \<Rightarrow> string \<Rightarrow> bool" where
  "String_includes [] searchString = String_startsWith [] searchString"
| "String_includes (c # cs) searchString =
     (String_startsWith (c # cs) searchString \<or> String_includes cs searchString)"

text \<open>
  \<open>ValidEmail\<close> is a string at run time: the opaque tag exists for the type checker only.
  The argument of \<open>onSubmit\<close> is any object with a property \<open>email\<close>, so the record is
  used with its extension; \<open>createUser\<close> is given an object with that property alone.
\<close>

record email_object =
  email :: string

definition isValidEmail :: "string \<Rightarrow> bool" where
  "isValidEmail address = String_includes address ''@''"

text \<open>
  \<open>createUser\<close> returns its argument (its body is a placeholder for a database insert).
  \<open>onSubmit\<close> drops that result, so the embedding threads the list of the arguments
  \<open>createUser\<close> has been called with, oldest first: the call appends its argument.
\<close>

definition createUser :: "email_object \<Rightarrow> email_object list \<Rightarrow> email_object \<times> email_object list" where
  "createUser user created = (user, created @ [user])"

text \<open>
  \<open>onSubmit\<close> is an \<open>async\<close> function: the \<open>throw\<close> rejects the promise it returns, which
  the awaiting caller sees as the exception. Falling off the end resolves to \<open>undefined\<close>.
\<close>

definition onSubmit :: "'a email_object_scheme \<Rightarrow> email_object list \<Rightarrow> (error + unit) \<times> email_object list" where
  "onSubmit vals created =
     (if \<not> isValidEmail (email vals) then (Inl (Error ''Email is invalid''), created)
      else (case createUser \<lparr>email = email vals\<rparr> created of
              (user, created') \<Rightarrow> (Inr (), created')))"

section \<open>Fetching a user and adding the full name\<close>

text \<open>
  The user object comes from \<open>fetchUser\<close> of \<open>external-lib\<close>, which is not part of the
  repository: the function, the type of its arguments and the value it rejects with are
  parameters.

  A property key is a string or a symbol. A value is a string, \<open>undefined\<close> (what a read
  of a missing property gives) or any other value of the language (\<open>JOther\<close>: a number, a
  boolean, \<open>null\<close>, a symbol, an object); what those other values are is a type parameter.
\<close>

datatype propkey =
    Name string
  | SymbolKey nat

datatype 'v jsval =
    JString string
  | JUndefined
  | JOther 'v

text \<open>
  An object, as far as the function can tell one from another: the properties that are
  its own and enumerable, which is what \<open>{ ...user }\<close> copies, and the ones that a read
  such as \<open>user.firstName\<close> finds although the spread does not copy them (own properties
  that are not enumerable, and the properties of the prototype chain). An accessor
  property stands for the value its getter returns.
\<close>

record 'v js_object =
  ownEnumerable :: "propkey \<rightharpoonup> 'v jsval"
  inheritedOrHidden :: "propkey \<rightharpoonup> 'v jsval"



text \<open>
  Reading a property: the object's own one first, then the prototype chain,
  \<open>undefined\<close> when neither has it.
\<close>

definition getProperty :: "'v js_object \<Rightarrow> propkey \<Rightarrow> 'v jsval" where
  "getProperty obj key =
     (case ownEnumerable obj key of
        Some v \<Rightarrow> v
      | None \<Rightarrow> (case inheritedOrHidden obj key of Some v \<Rightarrow> v | None \<Rightarrow> JUndefined))"

text \<open>
  The conversion a template literal applies to each substitution. A string is taken as
  it is and \<open>undefined\<close> gives its name. For the other values the conversion is the
  runtime's, given by \<open>convert\<close>: it may throw, as it does for a symbol or for an object
  whose \<open>toString\<close> throws.
\<close>

fun ToString :: "('v \<Rightarrow> 'x + string) \<Rightarrow> 'v jsval \<Rightarrow> 'x + string" where
  "ToString convert (JString s) = Inr s"
| "ToString convert JUndefined = Inr ''undefined''"
| "ToString convert (JOther v) = convert v"


section \<open>Facts about the permission table\<close>

lemma Array_includes_set: "Array_includes xs a \<longleftrightarrow> a \<in> set xs"
  by (induction xs) auto

text \<open>
  The property names of the object literal are pairwise different, so the first pair
  \<open>map_of\<close> finds for a name is the only one.
\<close>

lemma userAccessModel_keys_distinct: "distinct (map fst userAccessModel)"
  by (simp add: userAccessModel_def)

lemma Role_closed: "Role = {''user'', ''admin'', ''anonymous''}"
  by (auto simp: Role_def userAccessModel_def)

lemma Action_closed: "Action = {''create'', ''update-self'', ''update-any'', ''delete'', ''view''}"
  by (auto simp: Action_def userAccessModel_def)

lemma map_of_user:
  "map_of userAccessModel ''user'' = Some [''update-self'', ''view'']"
  by (simp add: userAccessModel_def)

lemma map_of_admin:
  "map_of userAccessModel ''admin'' =
     Some [''create'', ''update-self'', ''update-any'', ''delete'', ''view'']"
  by (simp add: userAccessModel_def)

lemma map_of_anonymous:
  "map_of userAccessModel ''anonymous'' = Some [''view'']"
  by (simp add: userAccessModel_def)

lemma canUserAccess_lookup:
  "canUserAccess role action =
     (case map_of userAccessModel role of
        None \<Rightarrow> Inl TypeError
      | Some actions \<Rightarrow> Inr (action \<in> set actions))"
  by (simp add: canUserAccess_def canUserAccess_in_def Array_includes_set split: option.split)

lemma Role_has_entry: "role \<in> Role \<Longrightarrow> \<exists>actions. map_of userAccessModel role = Some actions"
  unfolding Role_closed using map_of_user map_of_admin map_of_anonymous by auto

lemma canUserAccess_in_frame: "snd (canUserAccess_in model role action) = model"
  by (simp add: canUserAccess_in_def split: option.split)

lemma reachable_is_initial: "reachable model \<Longrightarrow> model = userAccessModel"
  by (induction rule: reachable.induct) (simp_all add: canUserAccess_in_frame)

lemma exercise_table_same: "userAccessModel_exercise = userAccessModel"
  by (simp add: userAccessModel_exercise_def userAccessModel_def)

lemma exercise_lookup_same: "canUserAccess_exercise role action = canUserAccess role action"
  by (simp add: canUserAccess_exercise_def canUserAccess_def canUserAccess_in_def
      exercise_table_same split: option.split)

section \<open>Facts about the email check\<close>

lemma String_includes_single: "String_includes s [c] \<longleftrightarrow> c \<in> set s"
  by (induction s) auto

lemma isValidEmail_at: "isValidEmail address \<longleftrightarrow> CHR ''@'' \<in> set address"
  by (simp add: isValidEmail_def String_includes_single)

section \<open>The permission lookup\<close>

text \<open>
  C1. For a role among user, admin and anonymous and an action among create, update-self,
  update-any, delete and view, \<open>canUserAccess\<close> returns true exactly when the action is a
  member of the array the permission table holds for the role, and false exactly when
  it is not.
\<close>

theorem canUserAccess_iff_listed:
  assumes "role \<in> {''user'', ''admin'', ''anonymous''}"
    and "action \<in> {''create'', ''update-self'', ''update-any'', ''delete'', ''view''}"
  shows "(canUserAccess role action = Inr True \<longleftrightarrow>
           (\<exists>actions. map_of userAccessModel role = Some actions \<and> action \<in> set actions))
       \<and> (canUserAccess role action = Inr False \<longleftrightarrow>
           \<not> (\<exists>actions. map_of userAccessModel role = Some actions \<and> action \<in> set actions))"
proof -
  from assms(1) have "role \<in> Role" by (simp add: Role_closed)
  then obtain actions where "map_of userAccessModel role = Some actions"
    using Role_has_entry by blast
  then show ?thesis by (simp add: canUserAccess_lookup)
qed

theorem canUserAccess_iff_listed_witness:
  "canUserAccess ''user'' ''update-self'' = Inr True \<and>
   canUserAccess ''user'' ''update-any'' = Inr False \<and>
   map_of userAccessModel ''user'' = Some [''update-self'', ''view'']"
  using canUserAccess_iff_listed [of "''user''" "''update-self''"]
    canUserAccess_iff_listed [of "''user''" "''update-any''"]
  by (simp add: map_of_user)

text \<open>
  C2. The permission table has an entry for each of the roles user, admin and anonymous,
  and each entry is a non-empty array whose members are among create, update-self,
  update-any, delete and view.
\<close>

theorem userAccessModel_total_nonempty:
  assumes "role \<in> {''user'', ''admin'', ''anonymous''}"
  shows "\<exists>actions. map_of userAccessModel role = Some actions \<and> actions \<noteq> [] \<and>
           set actions \<subseteq> {''create'', ''update-self'', ''update-any'', ''delete'', ''view''}"
  using assms map_of_user map_of_admin map_of_anonymous by auto

theorem userAccessModel_total_nonempty_witness:
  "map_of userAccessModel ''anonymous'' = Some [''view''] \<and> [''view''] \<noteq> [] \<and>
     set [''view''] \<subseteq> {''create'', ''update-self'', ''update-any'', ''delete'', ''view''}"
  using userAccessModel_total_nonempty [of "''anonymous''"] by (simp add: map_of_anonymous)

text \<open>
  C3. For a role and an action of the closed sets, \<open>canUserAccess\<close> raises no error: the
  call returns a boolean, the \<open>TypeError\<close> branch of the property read is not taken.
\<close>

theorem canUserAccess_no_error:
  assumes "role \<in> {''user'', ''admin'', ''anonymous''}"
    and "action \<in> {''create'', ''update-self'', ''update-any'', ''delete'', ''view''}"
  shows "\<exists>allowed. canUserAccess role action = Inr allowed"
proof -
  from assms(1) have "role \<in> Role" by (simp add: Role_closed)
  then obtain actions where "map_of userAccessModel role = Some actions"
    using Role_has_entry by blast
  then show ?thesis by (simp add: canUserAccess_lookup)
qed

theorem canUserAccess_no_error_witness:
  "\<exists>allowed. canUserAccess ''user'' ''create'' = Inr allowed"
  using canUserAccess_no_error [of "''user''" "''create''"] by simp

text \<open>
  C4. \<open>canUserAccess\<close> is deterministic: two calls with the same role and action, made
  at any two moments of a run of the program (whatever calls came before each), return
  the same result, which is the result of the call on the table as initialised.
\<close>

theorem canUserAccess_deterministic:
  assumes "reachable model" and "reachable model'"
  shows "fst (canUserAccess_in model role action) = fst (canUserAccess_in model' role action)
       \<and> fst (canUserAccess_in model role action) = canUserAccess role action"
  using assms by (auto dest!: reachable_is_initial simp: canUserAccess_def)

theorem canUserAccess_deterministic_witness:
  "fst (canUserAccess_in userAccessModel ''user'' ''delete'') =
   fst (canUserAccess_in (snd (canUserAccess_in userAccessModel ''admin'' ''view''))
          ''user'' ''delete'')"
  using canUserAccess_deterministic
    [OF reachable.initial reachable.call [OF reachable.initial],
      of "''user''" "''delete''" "''admin''" "''view''"]
  by simp

text \<open>C5. \<open>canUserAccess("admin", "delete")\<close> returns true.\<close>

theorem admin_can_delete: "canUserAccess ''admin'' ''delete'' = Inr True"
  by (simp add: canUserAccess_lookup map_of_admin)

text \<open>C6. \<open>canUserAccess("anonymous", "delete")\<close> returns false.\<close>

theorem anonymous_cannot_delete: "canUserAccess ''anonymous'' ''delete'' = Inr False"
  by (simp add: canUserAccess_lookup map_of_anonymous)

text \<open>
  C7. \<open>canUserAccess\<close> has no side effect: a call leaves the permission table as it found
  it, for every role and action, and the table the program holds at any moment of a run
  is the one it was initialised with.
\<close>

theorem canUserAccess_leaves_table:
  "snd (canUserAccess_in model role action) = model \<and>
   (reachable model \<longrightarrow> model = userAccessModel)"
  using reachable_is_initial by (simp add: canUserAccess_in_frame)

theorem canUserAccess_leaves_table_witness:
  "reachable (snd (canUserAccess_in userAccessModel ''admin'' ''create'')) \<and>
   snd (canUserAccess_in userAccessModel ''admin'' ''create'') = userAccessModel"
  using canUserAccess_leaves_table
    [of "snd (canUserAccess_in userAccessModel ''admin'' ''create'')" "''admin''" "''create''"]
    reachable.call [OF reachable.initial, of "''admin''" "''create''"]
  by simp

text \<open>
  C9. The \<open>canUserAccess\<close> of the exercise file and the one of the unnamed source file,
  each with its own permission table, are the same function: for every role and action
  both return the same boolean.
\<close>

theorem canUserAccess_exercise_agrees:
  assumes "role \<in> {''user'', ''admin'', ''anonymous''}"
    and "action \<in> {''create'', ''update-self'', ''update-any'', ''delete'', ''view''}"
  shows "\<exists>allowed. canUserAccess_exercise role action = Inr allowed \<and>
                   canUserAccess role action = Inr allowed"
proof -
  from assms(1) have "role \<in> Role" by (simp add: Role_closed)
  then obtain actions where "map_of userAccessModel role = Some actions"
    using Role_has_entry by blast
  then show ?thesis by (simp add: exercise_lookup_same canUserAccess_lookup)
qed

theorem canUserAccess_exercise_agrees_witness:
  "canUserAccess_exercise ''user'' ''view'' = Inr True \<and> canUserAccess ''user'' ''view'' = Inr True"
  using canUserAccess_exercise_agrees [of "''user''" "''view''"]
  by (auto simp: canUserAccess_lookup map_of_user)

section \<open>Submitting an email\<close>

text \<open>
  C8. \<open>onSubmit\<close> throws the error with the message "Email is invalid" exactly when the
  email has no character "@", and throws nothing else; when the email has an "@",
  \<open>onSubmit\<close> does not throw and calls \<open>createUser\<close> once, with an object holding exactly
  that email.
\<close>

theorem onSubmit_throws_iff_no_at:
  "(fst (onSubmit vals created) = Inl (Error ''Email is invalid'') \<longleftrightarrow>
      CHR ''@'' \<notin> set (email vals))
   \<and> ((\<exists>e. fst (onSubmit vals created) = Inl e) \<longleftrightarrow> CHR ''@'' \<notin> set (email vals))
   \<and> (CHR ''@'' \<in> set (email vals) \<longrightarrow>
        onSubmit vals created = (Inr (), created @ [\<lparr>email = email vals\<rparr>]))"
  by (simp add: onSubmit_def createUser_def isValidEmail_at)

theorem onSubmit_throws_iff_no_at_witness:
  "CHR ''@'' \<in> set ''team@totaltypescript.com'' \<and>
   onSubmit \<lparr>email = ''team@totaltypescript.com''\<rparr> [] =
     (Inr (), [\<lparr>email = ''team@totaltypescript.com''\<rparr>]) \<and>
   fst (onSubmit \<lparr>email = ''team.totaltypescript.com''\<rparr> []) = Inl (Error ''Email is invalid'')"
  using onSubmit_throws_iff_no_at [of "\<lparr>email = ''team@totaltypescript.com''\<rparr>" "[]"]
    onSubmit_throws_iff_no_at [of "\<lparr>email = ''team.totaltypescript.com''\<rparr>" "[]"]
  by simp

section \<open>The full name\<close>

lemma ToString_of_string:
  "getProperty user key = JString s \<Longrightarrow> ToString convert (getProperty user key) = Inr s"
  by simp




end
